theory Spec2Isabelle
  imports Main "HOL-Library.AList"
begin

section \<open>The role-claiming bot: data model\<close>

text \<open>
  The theory embeds \<^verbatim>\<open>src/Bot/complaint_management_bot.py\<close>. The module keeps two
  dictionaries, \<^verbatim>\<open>ASSIGNMENTS\<close> and \<^verbatim>\<open>PENDING_CONFIRM\<close>, and mutates them from the
  handlers of the chat events. Python dictionaries keep their keys in insertion order and
  \<^verbatim>\<open>get_user_role\<close> scans that order, so a dictionary is an association list here:
  \<^verbatim>\<open>d[k] = v\<close> is \<open>AList.update\<close> (replace in place, or append), \<^verbatim>\<open>d.pop(k, None)\<close> is
  \<open>AList.delete\<close>, \<^verbatim>\<open>k in d\<close> is \<open>map_of d k \<noteq> None\<close>, \<^verbatim>\<open>d.clear()\<close> gives \<open>[]\<close>.
  The handlers are coroutines, but none of them awaits between the first read of a
  dictionary and its last write, so every handler is one atomic step on the store.
\<close>

record role =
  key :: string
  name :: string
  desc :: string

text \<open>The originator of an event: \<^verbatim>\<open>user.id\<close> and \<^verbatim>\<open>user.full_name\<close>.\<close>

record tg_user =
  tg_id :: int
  full_name :: string

text \<open>A value of \<^verbatim>\<open>ASSIGNMENTS\<close>: the dictionary \<^verbatim>\<open>{"user_id": ..., "name": ...}\<close>.\<close>

record assignee =
  user_id :: int
  user_name :: string

record store =
  ASSIGNMENTS :: "(string \<times> assignee) list"
  PENDING_CONFIRM :: "(int \<times> string) list"

definition PROJECT_ROLES :: "role list" where
  "PROJECT_ROLES =
    [\<lparr>key = ''pm'',
      name = ''Project Manager & System Analyst'',
      desc = ''Responsible for project planning, requirement analysis, system documentation, use-case modeling, '' @
             ''coordination among team members, and ensuring timely project delivery.''\<rparr>,
     \<lparr>key = ''backend'',
      name = ''Backend Developer'',
      desc = ''Responsible for designing backend architecture, implementing REST APIs, handling authentication and '' @
             ''authorization, managing complaint and feedback workflows, and integrating the database.''\<rparr>,
     \<lparr>key = ''frontend'',
      name = ''Frontend Developer'',
      desc = ''Responsible for designing and implementing user interfaces, dashboards for users, officers, and administrators; '' @
             ''ensuring responsiveness, usability, and API integration.''\<rparr>,
     \<lparr>key = ''ml'',
      name = ''Machine Learning & Automation Engineer'',
      desc = ''Responsible for implementing complaint classification, priority prediction, and automatic assignment using NLP '' @
             ''techniques such as sentence transformers, improving system intelligence.''\<rparr>,
     \<lparr>key = ''devops'',
      name = ''Database, DevOps & Testing Engineer'',
      desc = ''Responsible for database schema design, ER diagrams, data integrity, Docker and deployment setup, system testing, '' @
             ''and ensuring reliability and performance.''\<rparr>]"

text \<open>The module starts with both dictionaries empty.\<close>

definition initial_store :: store where
  "initial_store = \<lparr>ASSIGNMENTS = [], PENDING_CONFIRM = []\<rparr>"

section \<open>Utility functions\<close>

definition get_role_by_key :: "string \<Rightarrow> role option" where
  "get_role_by_key role_key = find (\<lambda>role. key role = role_key) PROJECT_ROLES"

text \<open>The first key, in insertion order, whose value carries the user id.\<close>

definition get_user_role :: "store \<Rightarrow> int \<Rightarrow> string option" where
  "get_user_role s uid =
     map_option fst (find (\<lambda>kv. user_id (snd kv) = uid) (ASSIGNMENTS s))"

text \<open>
  \<^verbatim>\<open>ADMIN_IDS\<close> is read from the environment when the module is loaded; it is a parameter
  of the model.
\<close>

definition is_admin :: "int list \<Rightarrow> int \<Rightarrow> bool" where
  "is_admin ADMIN_IDS uid = (uid \<in> set ADMIN_IDS)"

subsection \<open>Rendering\<close>

text \<open>
  Strings are byte lists: the two emoji of the status text are written as their UTF-8
  bytes, the line feed as byte 10. \<open>str_int\<close> is Python's \<^verbatim>\<open>str\<close> on an integer, as the
  f-string applies it to the user id.
\<close>

fun str_nat :: "nat \<Rightarrow> string" where
  "str_nat n =
     (if n < 10 then [char_of (48 + n)]
      else str_nat (n div 10) @ [char_of (48 + n mod 10)])"

definition str_int :: "int \<Rightarrow> string" where
  "str_int i = (if i < 0 then ''-'' @ str_nat (nat (- i)) else str_nat (nat i))"

fun join :: "string \<Rightarrow> string list \<Rightarrow> string" where
  "join sep [] = []"
| "join sep [l] = l"
| "join sep (l # ls) = l @ sep @ join sep ls"

definition check_mark :: string where
  "check_mark = [CHR 0xE2, CHR 0x9C, CHR 0x85]"

definition blue_square :: string where
  "blue_square = [CHR 0xF0, CHR 0x9F, CHR 0x9F, CHR 0xA6]"

definition newline :: string where
  "newline = [CHR 0x0A]"

definition assigned_line :: "role \<Rightarrow> assignee \<Rightarrow> string" where
  "assigned_line r user =
     check_mark @ '' *'' @ name r @ ''*'' @ newline @ ''Assigned to: ['' @ user_name user @
     ''](tg://user?id='' @ str_int (user_id user) @ '')''"

definition available_line :: "role \<Rightarrow> string" where
  "available_line r = blue_square @ '' *'' @ name r @ ''*'' @ newline @ ''_(Available)_''"

definition get_assignments_text :: "store \<Rightarrow> string" where
  "get_assignments_text s =
     join (newline @ newline)
       (map (\<lambda>r. case map_of (ASSIGNMENTS s) (key r) of
                    Some user \<Rightarrow> assigned_line r user
                  | None \<Rightarrow> available_line r)
            PROJECT_ROLES)"

section \<open>Handlers\<close>

text \<open>
  A handler returns what it tells the user together with the store it leaves. The alerts
  by which a handler refuses are the errors of the negotiation:
  \<^item> \<open>RoleTaken\<close>: "This role is already taken." (select), "Sorry, this role is already
    taken!" (confirm);
  \<^item> \<open>AlreadyAssigned\<close>: "You already selected a role!" (select), "You can select only one
    role!" (confirm);
  \<^item> \<open>InvalidRole\<close>: "Invalid role!" (select);
  \<^item> \<open>Unauthorized\<close>: "You are not authorized to reset assignments." (reset);
  \<^item> \<open>TypeError\<close>: the exception of \<^verbatim>\<open>get_role_by_key(role_key)['name']\<close> when the lookup
    returned \<^verbatim>\<open>None\<close>;
  \<^item> \<open>IndexError\<close>: the exception of \<^verbatim>\<open>data.split(":")[1]\<close> on a list of one element.
\<close>

datatype error = RoleTaken | AlreadyAssigned | InvalidRole | Unauthorized | TypeError | IndexError

datatype reply =
    Noop_alert
  | Confirm_prompt role
  | Congratulations role
  | Cancelled
  | Reset_done
  | Ignored

type_synonym outcome = "(error + reply) \<times> store"

text \<open>The branch \<^verbatim>\<open>data.startswith("select:")\<close> of \<^verbatim>\<open>roles_callback\<close>, from the role key on.\<close>

definition select :: "tg_user \<Rightarrow> string \<Rightarrow> store \<Rightarrow> outcome" where
  "select user role_key s =
     (if map_of (ASSIGNMENTS s) role_key \<noteq> None then (Inl RoleTaken, s)
      else if get_user_role s (tg_id user) \<noteq> None then (Inl AlreadyAssigned, s)
      else case get_role_by_key role_key of
             None \<Rightarrow> (Inl InvalidRole, s)
           | Some r \<Rightarrow>
               (Inr (Confirm_prompt r),
                s\<lparr>PENDING_CONFIRM := AList.update (tg_id user) role_key (PENDING_CONFIRM s)\<rparr>))"

text \<open>
  The branch \<^verbatim>\<open>data.startswith("confirm:")\<close>. Both dictionaries are written before the
  congratulation text looks the role up.
\<close>

definition confirm :: "tg_user \<Rightarrow> string \<Rightarrow> store \<Rightarrow> outcome" where
  "confirm user role_key s =
     (if map_of (ASSIGNMENTS s) role_key \<noteq> None then (Inl RoleTaken, s)
      else if get_user_role s (tg_id user) \<noteq> None then (Inl AlreadyAssigned, s)
      else
        let s' = s\<lparr>ASSIGNMENTS :=
                      AList.update role_key \<lparr>user_id = tg_id user, user_name = full_name user\<rparr>
                        (ASSIGNMENTS s),
                    PENDING_CONFIRM := AList.delete (tg_id user) (PENDING_CONFIRM s)\<rparr>
        in case get_role_by_key role_key of
             None \<Rightarrow> (Inl TypeError, s')
           | Some r \<Rightarrow> (Inr (Congratulations r), s'))"

text \<open>The branch \<^verbatim>\<open>data == "cancel"\<close>.\<close>

definition cancel :: "tg_user \<Rightarrow> store \<Rightarrow> outcome" where
  "cancel user s =
     (Inr Cancelled, s\<lparr>PENDING_CONFIRM := AList.delete (tg_id user) (PENDING_CONFIRM s)\<rparr>)"

text \<open>Python's \<^verbatim>\<open>str.split(sep)\<close> for a separator of one character, and \<^verbatim>\<open>str.startswith\<close>.\<close>

fun split :: "char \<Rightarrow> string \<Rightarrow> string list" where
  "split c [] = [[]]"
| "split c (x # xs) =
     (if x = c then [] # split c xs
      else case split c xs of
             w # ws \<Rightarrow> (x # w) # ws
           | [] \<Rightarrow> [[x]])"

definition startswith :: "string \<Rightarrow> string \<Rightarrow> bool" where
  "startswith data p = (take (length p) data = p)"

text \<open>\<^verbatim>\<open>data.split(":")[1]\<close>.\<close>

definition role_key_of :: "string \<Rightarrow> string option" where
  "role_key_of data = (case split CHR '':'' data of _ # k # _ \<Rightarrow> Some k | _ \<Rightarrow> None)"

definition roles_callback :: "tg_user \<Rightarrow> string \<Rightarrow> store \<Rightarrow> outcome" where
  "roles_callback user data s =
     (if data = ''noop'' then (Inr Noop_alert, s)
      else if startswith data ''select:'' then
        (case role_key_of data of
           None \<Rightarrow> (Inl IndexError, s)
         | Some role_key \<Rightarrow> select user role_key s)
      else if startswith data ''confirm:'' then
        (case role_key_of data of
           None \<Rightarrow> (Inl IndexError, s)
         | Some role_key \<Rightarrow> confirm user role_key s)
      else if data = ''cancel'' then cancel user s
      else (Inr Ignored, s))"

text \<open>The handler of \<^verbatim>\<open>/reset\<close>; the caller is \<^verbatim>\<open>update.effective_user.id\<close>.\<close>

definition reset :: "int list \<Rightarrow> int \<Rightarrow> store \<Rightarrow> outcome" where
  "reset ADMIN_IDS caller s =
     (if \<not> is_admin ADMIN_IDS caller then (Inl Unauthorized, s)
      else (Inr Reset_done, s\<lparr>ASSIGNMENTS := [], PENDING_CONFIRM := []\<rparr>))"

subsection \<open>Sequences of events\<close>

datatype event =
    Select tg_user string
  | Confirm tg_user string
  | Cancel tg_user
  | Reset int

fun handle :: "int list \<Rightarrow> event \<Rightarrow> store \<Rightarrow> outcome" where
  "handle ADMIN_IDS (Select user role_key) s = select user role_key s"
| "handle ADMIN_IDS (Confirm user role_key) s = confirm user role_key s"
| "handle ADMIN_IDS (Cancel user) s = cancel user s"
| "handle ADMIN_IDS (Reset caller) s = reset ADMIN_IDS caller s"

text \<open>
  The store after a list of events, and the answers given on the way. An exception ends
  the handler that raised it, not the process: the next event meets the store as the
  failed handler left it.
\<close>

fun run :: "int list \<Rightarrow> event list \<Rightarrow> store \<Rightarrow> store" where
  "run ADMIN_IDS [] s = s"
| "run ADMIN_IDS (e # es) s = run ADMIN_IDS es (snd (handle ADMIN_IDS e s))"

fun answers :: "int list \<Rightarrow> event list \<Rightarrow> store \<Rightarrow> (event \<times> (error + reply)) list" where
  "answers ADMIN_IDS [] s = []"
| "answers ADMIN_IDS (e # es) s =
     (e, fst (handle ADMIN_IDS e s)) # answers ADMIN_IDS es (snd (handle ADMIN_IDS e s))"

section \<open>Properties of the handlers\<close>

subsection \<open>Dictionary facts\<close>

lemma delete_absent: "map_of al k = None \<Longrightarrow> AList.delete k al = al"
  by (simp add: map_of_eq_None_iff)

lemma filter_others_delete:
  "filter (\<lambda>kv. fst kv \<noteq> k) (AList.delete k al) = filter (\<lambda>kv. fst kv \<noteq> k) al"
  by (induction al) auto

lemma update_fresh: "map_of al k = None \<Longrightarrow> AList.update k v al = al @ [(k, v)]"
  by (induction al) (auto split: if_splits)

lemma set_update_subset: "x \<in> set (AList.update k v al) \<Longrightarrow> x = (k, v) \<or> x \<in> set al"
  by (induction al) (auto split: if_splits)

lemma set_delete_subset: "x \<in> set (AList.delete k al) \<Longrightarrow> x \<in> set al"
  by (simp add: AList.delete_eq)

lemma get_user_role_None:
  "get_user_role s uid = None \<longleftrightarrow> uid \<notin> (\<lambda>kv. user_id (snd kv)) ` set (ASSIGNMENTS s)"
  by (force simp: get_user_role_def find_None_iff)

lemma distinct_filter_le_1:
  "distinct (map f xs) \<Longrightarrow> length (filter (\<lambda>x. f x = c) xs) \<le> 1"
proof (induction xs)
  case Nil
  then show ?case by simp
next
  case (Cons x xs)
  show ?case
  proof (cases "f x = c")
    case True
    with Cons.prems have "c \<notin> f ` set xs" by simp
    then have "\<forall>y \<in> set xs. f y \<noteq> c" by blast
    then have "filter (\<lambda>x. f x = c) xs = []" by (simp add: filter_empty_conv)
    with True show ?thesis by simp
  next
    case False
    with Cons show ?thesis by simp
  qed
qed

subsection \<open>The branches of select and confirm\<close>

lemma select_taken: "map_of (ASSIGNMENTS s) r \<noteq> None \<Longrightarrow> select c r s = (Inl RoleTaken, s)"
  by (simp add: select_def)

lemma select_already:
  "map_of (ASSIGNMENTS s) r = None \<Longrightarrow> get_user_role s (tg_id c) \<noteq> None \<Longrightarrow>
     select c r s = (Inl AlreadyAssigned, s)"
  by (simp add: select_def)

lemma select_invalid:
  "map_of (ASSIGNMENTS s) r = None \<Longrightarrow> get_user_role s (tg_id c) = None \<Longrightarrow>
   get_role_by_key r = None \<Longrightarrow> select c r s = (Inl InvalidRole, s)"
  by (simp add: select_def)

lemma select_ok:
  "map_of (ASSIGNMENTS s) r = None \<Longrightarrow> get_user_role s (tg_id c) = None \<Longrightarrow>
   get_role_by_key r = Some rl \<Longrightarrow>
     select c r s = (Inr (Confirm_prompt rl),
        s\<lparr>PENDING_CONFIRM := AList.update (tg_id c) r (PENDING_CONFIRM s)\<rparr>)"
  by (simp add: select_def)

lemma confirm_taken: "map_of (ASSIGNMENTS s) r \<noteq> None \<Longrightarrow> confirm c r s = (Inl RoleTaken, s)"
  by (simp add: confirm_def)

lemma confirm_already:
  "map_of (ASSIGNMENTS s) r = None \<Longrightarrow> get_user_role s (tg_id c) \<noteq> None \<Longrightarrow>
     confirm c r s = (Inl AlreadyAssigned, s)"
  by (simp add: confirm_def)

lemma confirm_ok:
  "map_of (ASSIGNMENTS s) r = None \<Longrightarrow> get_user_role s (tg_id c) = None \<Longrightarrow>
   get_role_by_key r = Some rl \<Longrightarrow>
     confirm c r s = (Inr (Congratulations rl),
        s\<lparr>ASSIGNMENTS := ASSIGNMENTS s @ [(r, \<lparr>user_id = tg_id c, user_name = full_name c\<rparr>)],
          PENDING_CONFIRM := AList.delete (tg_id c) (PENDING_CONFIRM s)\<rparr>)"
  by (simp add: confirm_def update_fresh)

lemma confirm_crash:
  "map_of (ASSIGNMENTS s) r = None \<Longrightarrow> get_user_role s (tg_id c) = None \<Longrightarrow>
   get_role_by_key r = None \<Longrightarrow>
     confirm c r s = (Inl TypeError,
        s\<lparr>ASSIGNMENTS := ASSIGNMENTS s @ [(r, \<lparr>user_id = tg_id c, user_name = full_name c\<rparr>)],
          PENDING_CONFIRM := AList.delete (tg_id c) (PENDING_CONFIRM s)\<rparr>)"
  by (simp add: confirm_def update_fresh)

subsection \<open>The callback data\<close>

text \<open>
  The role key of \<^verbatim>\<open>select:<key>\<close> and \<^verbatim>\<open>confirm:<key>\<close> is the text between the first
  colon and the second, if there is one; the handler then runs the select or confirm branch
  on it. A callback that starts with either prefix contains a colon, so the subscript
  \<^verbatim>\<open>[1]\<close> never fails.
\<close>

lemma split_shape: "\<exists>ws. split c xs = takeWhile (\<lambda>x. x \<noteq> c) xs # ws"
  by (induction xs) auto

lemma role_key_of_select:
  "role_key_of (''select:'' @ k) = Some (takeWhile (\<lambda>x. x \<noteq> CHR '':'') k)"
proof -
  obtain ws where "split CHR '':'' k = takeWhile (\<lambda>x. x \<noteq> CHR '':'') k # ws"
    using split_shape by blast
  then show ?thesis
    by (simp add: role_key_of_def)
qed

lemma role_key_of_confirm:
  "role_key_of (''confirm:'' @ k) = Some (takeWhile (\<lambda>x. x \<noteq> CHR '':'') k)"
proof -
  obtain ws where "split CHR '':'' k = takeWhile (\<lambda>x. x \<noteq> CHR '':'') k # ws"
    using split_shape by blast
  then show ?thesis
    by (simp add: role_key_of_def)
qed

lemma roles_callback_select:
  "roles_callback user (''select:'' @ k) s = select user (takeWhile (\<lambda>x. x \<noteq> CHR '':'') k) s"
  using role_key_of_select [of k] by (simp add: roles_callback_def startswith_def)

lemma roles_callback_confirm:
  "roles_callback user (''confirm:'' @ k) s = confirm user (takeWhile (\<lambda>x. x \<noteq> CHR '':'') k) s"
  using role_key_of_confirm [of k] by (simp add: roles_callback_def startswith_def)

lemma roles_callback_cancel: "roles_callback user ''cancel'' s = cancel user s"
  by (simp add: roles_callback_def startswith_def)

lemma startswith_append: "startswith data p \<Longrightarrow> data = p @ drop (length p) data"
  unfolding startswith_def by (metis append_take_drop_id)

lemma roles_callback_no_IndexError: "fst (roles_callback user data s) \<noteq> Inl IndexError"
proof -
  have sel: "fst (select user k s) \<noteq> Inl IndexError" for k
    by (simp add: select_def split: option.splits)
  have con: "fst (confirm user k s) \<noteq> Inl IndexError" for k
    by (simp add: confirm_def Let_def split: option.splits)
  show ?thesis
  proof (cases "startswith data ''select:''")
    case True
    then obtain k where "data = ''select:'' @ k"
      using startswith_append by blast
    then have "roles_callback user data s = select user (takeWhile (\<lambda>x. x \<noteq> CHR '':'') k) s"
      by (simp only: roles_callback_select)
    with sel show ?thesis
      by simp
  next
    case False
    show ?thesis
    proof (cases "startswith data ''confirm:''")
      case True
      then obtain k where "data = ''confirm:'' @ k"
        using startswith_append by blast
      then have "roles_callback user data s = confirm user (takeWhile (\<lambda>x. x \<noteq> CHR '':'') k) s"
        by (simp only: roles_callback_confirm)
      with con show ?thesis
        by simp
    next
      case c: False
      with False show ?thesis
        by (simp add: roles_callback_def cancel_def)
    qed
  qed
qed

subsection \<open>Confirm and the pending entries\<close>

text \<open>
  Claim C1, as stated: a confirm by a claimant with no pending entry for the role creates
  no assignment and leaves the store as it was. The handler never reads
  \<^verbatim>\<open>PENDING_CONFIRM\<close>. After Ann (id 1) selected \<open>pm\<close>, a confirm of \<open>pm\<close> by Bob (id 2),
  who selected nothing, assigns \<open>pm\<close> to Bob.
\<close>

theorem confirm_without_pending_counterexample:
  "map_of (PENDING_CONFIRM (snd (select \<lparr>tg_id = 1, full_name = ''Ann''\<rparr> ''pm'' initial_store))) 2 = None \<and>
   confirm \<lparr>tg_id = 2, full_name = ''Bob''\<rparr> ''pm''
       (snd (select \<lparr>tg_id = 1, full_name = ''Ann''\<rparr> ''pm'' initial_store)) =
     (Inr (Congratulations (PROJECT_ROLES ! 0)),
      \<lparr>ASSIGNMENTS = [(''pm'', \<lparr>user_id = 2, user_name = ''Bob''\<rparr>)],
       PENDING_CONFIRM = [(1, ''pm'')]\<rparr>)"
  by (simp add: select_def confirm_def initial_store_def get_user_role_def get_role_by_key_def
      PROJECT_ROLES_def)

text \<open>
  Claim C1, amended. When claimant \<open>c\<close> confirms role key \<open>r\<close> without a pending entry for
  \<open>r\<close>, the store is unchanged and no assignment is created only where confirm refuses:
  with \<open>RoleTaken\<close> when \<open>r\<close> is assigned, with \<open>AlreadyAssigned\<close> when \<open>c\<close> holds a
  role. Otherwise, for a key \<open>r\<close> of the catalog, confirm succeeds as it would with a
  pending entry: it appends the assignment of \<open>r\<close> to \<open>c\<close> and pops the pending entry
  of \<open>c\<close>, whatever it pointed at.
\<close>

theorem confirm_without_pending:
  assumes "map_of (PENDING_CONFIRM s) (tg_id c) \<noteq> Some r"
  shows "(map_of (ASSIGNMENTS s) r \<noteq> None \<longrightarrow> confirm c r s = (Inl RoleTaken, s)) \<and>
    (map_of (ASSIGNMENTS s) r = None \<and> get_user_role s (tg_id c) \<noteq> None \<longrightarrow>
       confirm c r s = (Inl AlreadyAssigned, s)) \<and>
    (\<forall>rl. map_of (ASSIGNMENTS s) r = None \<and> get_user_role s (tg_id c) = None \<and>
       get_role_by_key r = Some rl \<longrightarrow>
       confirm c r s = (Inr (Congratulations rl),
        s\<lparr>ASSIGNMENTS := ASSIGNMENTS s @ [(r, \<lparr>user_id = tg_id c, user_name = full_name c\<rparr>)],
          PENDING_CONFIRM := AList.delete (tg_id c) (PENDING_CONFIRM s)\<rparr>))"
  by (simp add: confirm_taken confirm_already confirm_ok)

theorem confirm_without_pending_witness:
  "map_of (PENDING_CONFIRM \<lparr>ASSIGNMENTS = [], PENDING_CONFIRM = [(2, ''ml'')]\<rparr>)
       (tg_id \<lparr>tg_id = 2, full_name = ''Bob''\<rparr>) \<noteq> Some ''pm'' \<and>
   map_of (ASSIGNMENTS \<lparr>ASSIGNMENTS = [], PENDING_CONFIRM = [(2, ''ml'')]\<rparr>) ''pm'' = None \<and>
   get_user_role \<lparr>ASSIGNMENTS = [], PENDING_CONFIRM = [(2, ''ml'')]\<rparr>
       (tg_id \<lparr>tg_id = 2, full_name = ''Bob''\<rparr>) = None \<and>
   get_role_by_key ''pm'' = Some (PROJECT_ROLES ! 0) \<and>
   confirm \<lparr>tg_id = 2, full_name = ''Bob''\<rparr> ''pm''
       \<lparr>ASSIGNMENTS = [], PENDING_CONFIRM = [(2, ''ml'')]\<rparr> =
     (Inr (Congratulations (PROJECT_ROLES ! 0)),
      \<lparr>ASSIGNMENTS = [(''pm'', \<lparr>user_id = 2, user_name = ''Bob''\<rparr>)], PENDING_CONFIRM = []\<rparr>)"
proof -
  have pending: "map_of (PENDING_CONFIRM \<lparr>ASSIGNMENTS = [], PENDING_CONFIRM = [(2, ''ml'')]\<rparr>)
       (tg_id \<lparr>tg_id = 2, full_name = ''Bob''\<rparr>) \<noteq> Some ''pm''"
    by simp
  have role: "get_role_by_key ''pm'' = Some (PROJECT_ROLES ! 0)"
    by (simp add: get_role_by_key_def PROJECT_ROLES_def)
  from confirm_without_pending [OF pending] role show ?thesis
    by (simp add: get_user_role_def)
qed

subsection \<open>Errors and the store\<close>

text \<open>
  Claim C2 says that an operation ending in an error, an unknown role key given to confirm
  included, leaves both dictionaries as they were. Select looks the role up before it
  writes and answers "Invalid role!"; confirm writes both dictionaries first and looks the
  role up for the congratulation text afterwards. On the callback data \<^verbatim>\<open>confirm:xyz\<close> in the
  initial store the handler ends in the TypeError of subscripting \<^verbatim>\<open>None\<close>, and the
  store holds an assignment of the unknown key \<open>xyz\<close>.
\<close>

theorem confirm_unknown_role_mutates:
  "get_role_by_key ''xyz'' = None \<and>
   roles_callback \<lparr>tg_id = 1, full_name = ''Ann''\<rparr> ''confirm:xyz'' initial_store =
     (Inl TypeError,
      \<lparr>ASSIGNMENTS = [(''xyz'', \<lparr>user_id = 1, user_name = ''Ann''\<rparr>)], PENDING_CONFIRM = []\<rparr>)"
  by (simp add: roles_callback_def startswith_def role_key_of_def confirm_def initial_store_def
      get_user_role_def get_role_by_key_def PROJECT_ROLES_def)

text \<open>Every other error returns the store it was given.\<close>

lemma errors_keep_store:
  "fst (handle ADMIN_IDS e s) = Inl err \<Longrightarrow> err \<noteq> TypeError \<Longrightarrow> snd (handle ADMIN_IDS e s) = s"
  by (cases e)
    (auto simp: select_def confirm_def cancel_def reset_def Let_def split: if_splits option.splits)

subsection \<open>One role per claimant\<close>

lemma handle_one_role_each:
  "distinct (map (\<lambda>kv. user_id (snd kv)) (ASSIGNMENTS s)) \<Longrightarrow>
     distinct (map (\<lambda>kv. user_id (snd kv)) (ASSIGNMENTS (snd (handle ADMIN_IDS e s))))"
  by (cases e)
    (auto simp: select_def confirm_def cancel_def reset_def Let_def update_fresh
       get_user_role_None split: if_splits option.splits)

lemma run_one_role_each:
  "distinct (map (\<lambda>kv. user_id (snd kv)) (ASSIGNMENTS s)) \<Longrightarrow>
     distinct (map (\<lambda>kv. user_id (snd kv)) (ASSIGNMENTS (run ADMIN_IDS es s)))"
  by (induction es arbitrary: s) (simp_all add: handle_one_role_each)

text \<open>
  Claim C5. In the store reached from the initial store by any list of select, confirm,
  cancel and reset events, the assignments that carry a given claimant identity are at
  most one.
\<close>

theorem one_assignment_per_claimant:
  "length (filter (\<lambda>kv. user_id (snd kv) = c) (ASSIGNMENTS (run ADMIN_IDS es initial_store))) \<le> 1"
proof -
  have "distinct (map (\<lambda>kv. user_id (snd kv)) (ASSIGNMENTS initial_store))"
    by (simp add: initial_store_def)
  then have "distinct (map (\<lambda>kv. user_id (snd kv)) (ASSIGNMENTS (run ADMIN_IDS es initial_store)))"
    by (rule run_one_role_each)
  then show ?thesis
    by (rule distinct_filter_le_1)
qed

theorem one_assignment_per_claimant_witness:
  "ASSIGNMENTS (run [] [Select \<lparr>tg_id = 1, full_name = ''Ann''\<rparr> ''pm'',
        Confirm \<lparr>tg_id = 1, full_name = ''Ann''\<rparr> ''pm'',
        Select \<lparr>tg_id = 1, full_name = ''Ann''\<rparr> ''ml'',
        Confirm \<lparr>tg_id = 1, full_name = ''Ann''\<rparr> ''ml''] initial_store) =
     [(''pm'', \<lparr>user_id = 1, user_name = ''Ann''\<rparr>)] \<and>
   length (filter (\<lambda>kv. user_id (snd kv) = 1)
     (ASSIGNMENTS (run [] [Select \<lparr>tg_id = 1, full_name = ''Ann''\<rparr> ''pm'',
        Confirm \<lparr>tg_id = 1, full_name = ''Ann''\<rparr> ''pm'',
        Select \<lparr>tg_id = 1, full_name = ''Ann''\<rparr> ''ml'',
        Confirm \<lparr>tg_id = 1, full_name = ''Ann''\<rparr> ''ml''] initial_store))) \<le> 1"
  using one_assignment_per_claimant [of 1 "[]" "[Select \<lparr>tg_id = 1, full_name = ''Ann''\<rparr> ''pm'',
        Confirm \<lparr>tg_id = 1, full_name = ''Ann''\<rparr> ''pm'',
        Select \<lparr>tg_id = 1, full_name = ''Ann''\<rparr> ''ml'',
        Confirm \<lparr>tg_id = 1, full_name = ''Ann''\<rparr> ''ml'']"]
  by (simp add: select_def confirm_def initial_store_def get_user_role_def get_role_by_key_def
      PROJECT_ROLES_def)

subsection \<open>Select and the pending entries\<close>

lemma set_update_distinct:
  "distinct (map fst al) \<Longrightarrow> (k, w) \<in> set (AList.update k v al) \<Longrightarrow> w = v"
  by (induction al) (force split: if_splits dest: set_update_subset)+

lemma handle_pending_distinct:
  "distinct (map fst (PENDING_CONFIRM s)) \<Longrightarrow>
     distinct (map fst (PENDING_CONFIRM (snd (handle ADMIN_IDS e s))))"
  by (cases e)
    (auto simp: select_def confirm_def cancel_def reset_def Let_def AList.distinct_update
       AList.distinct_delete split: if_splits option.splits)

text \<open>The keys of \<^verbatim>\<open>PENDING_CONFIRM\<close> are pairwise distinct in every store the events reach.\<close>

lemma run_pending_distinct:
  "distinct (map fst (PENDING_CONFIRM s)) \<Longrightarrow>
     distinct (map fst (PENDING_CONFIRM (run ADMIN_IDS es s)))"
  by (induction es arbitrary: s) (simp_all add: handle_pending_distinct)

text \<open>
  Claim C6. Claimant \<open>c\<close> has a pending entry for \<open>r1\<close> (in a dictionary, so with its keys
  pairwise distinct) and selects another role \<open>r2\<close> with success. Then the lookup of \<open>c\<close>
  in the pending entries gives \<open>r2\<close>, every pending entry of \<open>c\<close> is for \<open>r2\<close>, and the
  assignments are those from before the select: \<open>r1\<close>, if unassigned, is still unassigned.
\<close>

theorem select_overwrites_pending:
  assumes "distinct (map fst (PENDING_CONFIRM s))"
    and "map_of (PENDING_CONFIRM s) (tg_id c) = Some r1"
    and "r2 \<noteq> r1"
    and "fst (select c r2 s) = Inr (Confirm_prompt rl)"
  shows "map_of (PENDING_CONFIRM (snd (select c r2 s))) (tg_id c) = Some r2 \<and>
    (\<forall>r. (tg_id c, r) \<in> set (PENDING_CONFIRM (snd (select c r2 s))) \<longrightarrow> r = r2) \<and>
    ASSIGNMENTS (snd (select c r2 s)) = ASSIGNMENTS s \<and>
    (map_of (ASSIGNMENTS s) r1 = None \<longrightarrow> map_of (ASSIGNMENTS (snd (select c r2 s))) r1 = None)"
proof -
  from assms(4) have s': "snd (select c r2 s) =
      s\<lparr>PENDING_CONFIRM := AList.update (tg_id c) r2 (PENDING_CONFIRM s)\<rparr>"
    by (auto simp: select_def split: if_splits option.splits)
  have "r = r2" if "(tg_id c, r) \<in> set (AList.update (tg_id c) r2 (PENDING_CONFIRM s))" for r
    using assms(1) that by (rule set_update_distinct)
  then show ?thesis
    by (simp add: s' AList.update_conv')
qed

theorem select_overwrites_pending_witness:
  "distinct (map fst (PENDING_CONFIRM \<lparr>ASSIGNMENTS = [], PENDING_CONFIRM = [(1, ''pm'')]\<rparr>)) \<and>
   map_of (PENDING_CONFIRM \<lparr>ASSIGNMENTS = [], PENDING_CONFIRM = [(1, ''pm'')]\<rparr>)
     (tg_id \<lparr>tg_id = 1, full_name = ''Ann''\<rparr>) = Some ''pm'' \<and>
   ''backend'' \<noteq> ''pm'' \<and>
   fst (select \<lparr>tg_id = 1, full_name = ''Ann''\<rparr> ''backend''
         \<lparr>ASSIGNMENTS = [], PENDING_CONFIRM = [(1, ''pm'')]\<rparr>) =
     Inr (Confirm_prompt (PROJECT_ROLES ! 1)) \<and>
   PENDING_CONFIRM (snd (select \<lparr>tg_id = 1, full_name = ''Ann''\<rparr> ''backend''
         \<lparr>ASSIGNMENTS = [], PENDING_CONFIRM = [(1, ''pm'')]\<rparr>)) = [(1, ''backend'')] \<and>
   map_of (ASSIGNMENTS (snd (select \<lparr>tg_id = 1, full_name = ''Ann''\<rparr> ''backend''
         \<lparr>ASSIGNMENTS = [], PENDING_CONFIRM = [(1, ''pm'')]\<rparr>))) ''pm'' = None"
proof -
  have h1: "distinct (map fst (PENDING_CONFIRM \<lparr>ASSIGNMENTS = [], PENDING_CONFIRM = [(1::int, ''pm'')]\<rparr>))"
    by simp
  have h2: "map_of (PENDING_CONFIRM \<lparr>ASSIGNMENTS = [], PENDING_CONFIRM = [(1, ''pm'')]\<rparr>)
     (tg_id \<lparr>tg_id = 1, full_name = ''Ann''\<rparr>) = Some ''pm''"
    by simp
  have h3: "''backend'' \<noteq> ''pm''"
    by simp
  have h4: "fst (select \<lparr>tg_id = 1, full_name = ''Ann''\<rparr> ''backend''
         \<lparr>ASSIGNMENTS = [], PENDING_CONFIRM = [(1, ''pm'')]\<rparr>) =
     Inr (Confirm_prompt (PROJECT_ROLES ! 1))"
    by (simp add: select_def get_user_role_def get_role_by_key_def PROJECT_ROLES_def)
  from select_overwrites_pending [OF h1 h2 h3 h4] h1 h2 h3 h4 show ?thesis
    by (simp add: select_def get_user_role_def get_role_by_key_def PROJECT_ROLES_def)
qed

subsection \<open>Assigned roles\<close>

text \<open>
  Claim C4, as stated: in every reachable store no role with an assignment has a pending
  entry pointing at it. Confirm pops the pending entry of the confirming claimant only.
  After Ann and Bob both selected \<open>pm\<close> and Bob confirmed, \<open>pm\<close> is assigned to Bob and
  the pending entry of Ann still points at \<open>pm\<close>.
\<close>

theorem stale_pending_counterexample:
  "map_of (ASSIGNMENTS (run [] [Select \<lparr>tg_id = 1, full_name = ''Ann''\<rparr> ''pm'',
        Select \<lparr>tg_id = 2, full_name = ''Bob''\<rparr> ''pm'',
        Confirm \<lparr>tg_id = 2, full_name = ''Bob''\<rparr> ''pm''] initial_store)) ''pm'' =
     Some \<lparr>user_id = 2, user_name = ''Bob''\<rparr> \<and>
   map_of (PENDING_CONFIRM (run [] [Select \<lparr>tg_id = 1, full_name = ''Ann''\<rparr> ''pm'',
        Select \<lparr>tg_id = 2, full_name = ''Bob''\<rparr> ''pm'',
        Confirm \<lparr>tg_id = 2, full_name = ''Bob''\<rparr> ''pm''] initial_store)) 1 = Some ''pm''"
  by (simp add: select_def confirm_def initial_store_def get_user_role_def get_role_by_key_def
      PROJECT_ROLES_def)

lemma handle_distinct_keys:
  "distinct (map fst (ASSIGNMENTS s)) \<Longrightarrow>
     distinct (map fst (ASSIGNMENTS (snd (handle ADMIN_IDS e s))))"
  by (cases e)
    (auto simp: select_def confirm_def cancel_def reset_def Let_def AList.distinct_update
       split: if_splits option.splits)

lemma run_distinct_keys:
  "distinct (map fst (ASSIGNMENTS s)) \<Longrightarrow>
     distinct (map fst (ASSIGNMENTS (run ADMIN_IDS es s)))"
  by (induction es arbitrary: s) (simp_all add: handle_distinct_keys)

lemma assigned_role_step:
  assumes "map_of (ASSIGNMENTS s) r = Some a"
  shows "(\<forall>c. (c, r) \<in> set (PENDING_CONFIRM (snd (handle ADMIN_IDS e s))) \<longrightarrow>
            (c, r) \<in> set (PENDING_CONFIRM s)) \<and>
         (map_of (ASSIGNMENTS (snd (handle ADMIN_IDS e s))) r = Some a \<or>
          (\<exists>caller. e = Reset caller \<and> is_admin ADMIN_IDS caller \<and>
             snd (handle ADMIN_IDS e s) = initial_store))"
proof (cases e)
  case (Select u k)
  show ?thesis
  proof (cases "k = r")
    case True
    with assms Select show ?thesis by (simp add: select_taken)
  next
    case False
    with assms Select show ?thesis
      by (auto simp: select_def split: if_splits option.splits dest: set_update_subset)
  qed
next
  case (Confirm u k)
  with assms show ?thesis
    by (auto simp: confirm_def Let_def AList.update_conv' split: if_splits option.splits
        dest: set_delete_subset)
next
  case (Cancel u)
  with assms show ?thesis
    by (auto simp: cancel_def dest: set_delete_subset)
next
  case (Reset caller)
  with assms show ?thesis
    by (auto simp: reset_def initial_store_def)
qed

text \<open>
  Claim C4, amended. In every store reached from the initial store no role key has two
  assignments, and a role that has an assignment acquires nothing by the next event: every
  pending entry that points at it after the event was there before the event, and its
  assignment is the same after the event, unless the event is a reset by an admin, which
  leaves the initial store. A pending entry made before the role was assigned to another
  claimant may remain.
\<close>

theorem assigned_role_never_acquires:
  "distinct (map fst (ASSIGNMENTS (run ADMIN_IDS es initial_store))) \<and>
   (map_of (ASSIGNMENTS (run ADMIN_IDS es initial_store)) r = Some a \<longrightarrow>
      (\<forall>c. (c, r) \<in> set (PENDING_CONFIRM (snd (handle ADMIN_IDS e (run ADMIN_IDS es initial_store)))) \<longrightarrow>
            (c, r) \<in> set (PENDING_CONFIRM (run ADMIN_IDS es initial_store))) \<and>
      (map_of (ASSIGNMENTS (snd (handle ADMIN_IDS e (run ADMIN_IDS es initial_store)))) r = Some a \<or>
       (\<exists>caller. e = Reset caller \<and> is_admin ADMIN_IDS caller \<and>
          snd (handle ADMIN_IDS e (run ADMIN_IDS es initial_store)) = initial_store)))"
proof -
  have "distinct (map fst (ASSIGNMENTS initial_store))"
    by (simp add: initial_store_def)
  then have "distinct (map fst (ASSIGNMENTS (run ADMIN_IDS es initial_store)))"
    by (rule run_distinct_keys)
  then show ?thesis
    using assigned_role_step by blast
qed

theorem assigned_role_never_acquires_witness:
  "map_of (ASSIGNMENTS (run [] [Select \<lparr>tg_id = 1, full_name = ''Ann''\<rparr> ''pm'',
        Select \<lparr>tg_id = 2, full_name = ''Bob''\<rparr> ''pm'',
        Confirm \<lparr>tg_id = 2, full_name = ''Bob''\<rparr> ''pm''] initial_store)) ''pm'' =
     Some \<lparr>user_id = 2, user_name = ''Bob''\<rparr> \<and>
   (3, ''pm'') \<notin> set (PENDING_CONFIRM (snd (handle [] (Select \<lparr>tg_id = 3, full_name = ''Cy''\<rparr> ''pm'')
      (run [] [Select \<lparr>tg_id = 1, full_name = ''Ann''\<rparr> ''pm'',
        Select \<lparr>tg_id = 2, full_name = ''Bob''\<rparr> ''pm'',
        Confirm \<lparr>tg_id = 2, full_name = ''Bob''\<rparr> ''pm''] initial_store)))) \<and>
   map_of (ASSIGNMENTS (snd (handle [] (Select \<lparr>tg_id = 3, full_name = ''Cy''\<rparr> ''pm'')
      (run [] [Select \<lparr>tg_id = 1, full_name = ''Ann''\<rparr> ''pm'',
        Select \<lparr>tg_id = 2, full_name = ''Bob''\<rparr> ''pm'',
        Confirm \<lparr>tg_id = 2, full_name = ''Bob''\<rparr> ''pm''] initial_store)))) ''pm'' =
     Some \<lparr>user_id = 2, user_name = ''Bob''\<rparr>"
proof -
  have assigned: "map_of (ASSIGNMENTS (run [] [Select \<lparr>tg_id = 1, full_name = ''Ann''\<rparr> ''pm'',
        Select \<lparr>tg_id = 2, full_name = ''Bob''\<rparr> ''pm'',
        Confirm \<lparr>tg_id = 2, full_name = ''Bob''\<rparr> ''pm''] initial_store)) ''pm'' =
     Some \<lparr>user_id = 2, user_name = ''Bob''\<rparr>"
    by (simp add: select_def confirm_def initial_store_def get_user_role_def get_role_by_key_def
      PROJECT_ROLES_def)
  have before: "(3, ''pm'') \<notin> set (PENDING_CONFIRM (run [] [Select \<lparr>tg_id = 1, full_name = ''Ann''\<rparr> ''pm'',
        Select \<lparr>tg_id = 2, full_name = ''Bob''\<rparr> ''pm'',
        Confirm \<lparr>tg_id = 2, full_name = ''Bob''\<rparr> ''pm''] initial_store))"
    by (simp add: select_def confirm_def initial_store_def get_user_role_def get_role_by_key_def
      PROJECT_ROLES_def)
  have no_reset: "\<not> (\<exists>caller. Select \<lparr>tg_id = 3, full_name = ''Cy''\<rparr> ''pm'' = Reset caller \<and> P caller)"
    for P
    by simp
  from assigned_role_never_acquires [of "[]" "[Select \<lparr>tg_id = 1, full_name = ''Ann''\<rparr> ''pm'',
        Select \<lparr>tg_id = 2, full_name = ''Bob''\<rparr> ''pm'',
        Confirm \<lparr>tg_id = 2, full_name = ''Bob''\<rparr> ''pm'']" "''pm''"
        "\<lparr>user_id = 2, user_name = ''Bob''\<rparr>" "Select \<lparr>tg_id = 3, full_name = ''Cy''\<rparr> ''pm''"]
    assigned before
  show ?thesis
    by blast
qed

subsection \<open>Two claimants, one role\<close>

lemma get_user_role_pending [simp]:
  "get_user_role (s\<lparr>PENDING_CONFIRM := p\<rparr>) uid = get_user_role s uid"
  by (simp add: get_user_role_def)

lemma get_user_role_append_other:
  "get_user_role s uid = None \<Longrightarrow> uid \<noteq> w \<Longrightarrow>
   get_user_role (s\<lparr>ASSIGNMENTS := ASSIGNMENTS s @ [(r, \<lparr>user_id = w, user_name = n\<rparr>)]\<rparr>) uid = None"
  by (simp add: get_user_role_None)

text \<open>The six interleavings of two events of one claimant with two events of another.\<close>

lemma shuffles_two_two:
  "es \<in> shuffles [a, b] [c, d] \<longleftrightarrow>
     es = [a, b, c, d] \<or> es = [a, c, b, d] \<or> es = [a, c, d, b] \<or>
     es = [c, a, b, d] \<or> es = [c, a, d, b] \<or> es = [c, d, a, b]"
  by (auto simp: shuffles.simps)

text \<open>
  Claim C3. Two claimants with different identities each select and then confirm the same
  role \<open>r\<close> of the catalog, from a store where \<open>r\<close> is unassigned and neither holds a
  role, the four events interleaved in any order that keeps each select before the confirm
  of the same claimant. Then one confirm is answered with the congratulation and the other
  with \<open>RoleTaken\<close>, and the assignments at the end are those of the start followed by
  the one assignment of \<open>r\<close> to the claimant whose confirm succeeded.
\<close>

theorem race_safety:
  assumes distinct: "tg_id c1 \<noteq> tg_id c2"
    and role: "get_role_by_key r = Some rl"
    and free: "map_of (ASSIGNMENTS s) r = None"
    and c1: "get_user_role s (tg_id c1) = None"
    and c2: "get_user_role s (tg_id c2) = None"
    and es: "es \<in> shuffles [Select c1 r, Confirm c1 r] [Select c2 r, Confirm c2 r]"
  shows "(map_of (answers ADMIN_IDS es s) (Confirm c1 r) = Some (Inr (Congratulations rl)) \<and>
          map_of (answers ADMIN_IDS es s) (Confirm c2 r) = Some (Inl RoleTaken) \<and>
          ASSIGNMENTS (run ADMIN_IDS es s) =
            ASSIGNMENTS s @ [(r, \<lparr>user_id = tg_id c1, user_name = full_name c1\<rparr>)]) \<or>
         (map_of (answers ADMIN_IDS es s) (Confirm c2 r) = Some (Inr (Congratulations rl)) \<and>
          map_of (answers ADMIN_IDS es s) (Confirm c1 r) = Some (Inl RoleTaken) \<and>
          ASSIGNMENTS (run ADMIN_IDS es s) =
            ASSIGNMENTS s @ [(r, \<lparr>user_id = tg_id c2, user_name = full_name c2\<rparr>)])"
proof -
  have ne: "c1 \<noteq> c2" "c2 \<noteq> c1"
    using distinct by auto
  note facts = role free c1 c2 ne select_ok select_taken confirm_ok confirm_taken
    get_user_role_append_other
  from es consider
      "es = [Select c1 r, Confirm c1 r, Select c2 r, Confirm c2 r]"
    | "es = [Select c1 r, Select c2 r, Confirm c1 r, Confirm c2 r]"
    | "es = [Select c1 r, Select c2 r, Confirm c2 r, Confirm c1 r]"
    | "es = [Select c2 r, Select c1 r, Confirm c1 r, Confirm c2 r]"
    | "es = [Select c2 r, Select c1 r, Confirm c2 r, Confirm c1 r]"
    | "es = [Select c2 r, Confirm c2 r, Select c1 r, Confirm c1 r]"
    unfolding shuffles_two_two by blast
  then show ?thesis
  proof cases
    case 1
    then show ?thesis by (simp add: facts)
  next
    case 2
    then show ?thesis by (simp add: facts)
  next
    case 3
    then show ?thesis by (simp add: facts)
  next
    case 4
    then show ?thesis by (simp add: facts)
  next
    case 5
    then show ?thesis by (simp add: facts)
  next
    case 6
    then show ?thesis by (simp add: facts)
  qed
qed

theorem race_safety_witness:
  "tg_id \<lparr>tg_id = 1, full_name = ''Ann''\<rparr> \<noteq> tg_id \<lparr>tg_id = 2, full_name = ''Bob''\<rparr> \<and>
   get_role_by_key ''pm'' = Some (PROJECT_ROLES ! 0) \<and>
   map_of (ASSIGNMENTS initial_store) ''pm'' = None \<and>
   get_user_role initial_store 1 = None \<and>
   get_user_role initial_store 2 = None \<and>
   [Select \<lparr>tg_id = 1, full_name = ''Ann''\<rparr> ''pm'', Select \<lparr>tg_id = 2, full_name = ''Bob''\<rparr> ''pm'',
    Confirm \<lparr>tg_id = 2, full_name = ''Bob''\<rparr> ''pm'', Confirm \<lparr>tg_id = 1, full_name = ''Ann''\<rparr> ''pm'']
     \<in> shuffles [Select \<lparr>tg_id = 1, full_name = ''Ann''\<rparr> ''pm'', Confirm \<lparr>tg_id = 1, full_name = ''Ann''\<rparr> ''pm'']
          [Select \<lparr>tg_id = 2, full_name = ''Bob''\<rparr> ''pm'', Confirm \<lparr>tg_id = 2, full_name = ''Bob''\<rparr> ''pm''] \<and>
   map_of (answers []
      [Select \<lparr>tg_id = 1, full_name = ''Ann''\<rparr> ''pm'', Select \<lparr>tg_id = 2, full_name = ''Bob''\<rparr> ''pm'',
       Confirm \<lparr>tg_id = 2, full_name = ''Bob''\<rparr> ''pm'', Confirm \<lparr>tg_id = 1, full_name = ''Ann''\<rparr> ''pm'']
      initial_store) (Confirm \<lparr>tg_id = 2, full_name = ''Bob''\<rparr> ''pm'') =
     Some (Inr (Congratulations (PROJECT_ROLES ! 0))) \<and>
   map_of (answers []
      [Select \<lparr>tg_id = 1, full_name = ''Ann''\<rparr> ''pm'', Select \<lparr>tg_id = 2, full_name = ''Bob''\<rparr> ''pm'',
       Confirm \<lparr>tg_id = 2, full_name = ''Bob''\<rparr> ''pm'', Confirm \<lparr>tg_id = 1, full_name = ''Ann''\<rparr> ''pm'']
      initial_store) (Confirm \<lparr>tg_id = 1, full_name = ''Ann''\<rparr> ''pm'') =
     Some (Inl RoleTaken) \<and>
   ASSIGNMENTS (run []
      [Select \<lparr>tg_id = 1, full_name = ''Ann''\<rparr> ''pm'', Select \<lparr>tg_id = 2, full_name = ''Bob''\<rparr> ''pm'',
       Confirm \<lparr>tg_id = 2, full_name = ''Bob''\<rparr> ''pm'', Confirm \<lparr>tg_id = 1, full_name = ''Ann''\<rparr> ''pm'']
      initial_store) = [(''pm'', \<lparr>user_id = 2, user_name = ''Bob''\<rparr>)]"
proof -
  have h1: "tg_id \<lparr>tg_id = 1, full_name = ''Ann''\<rparr> \<noteq> tg_id \<lparr>tg_id = 2, full_name = ''Bob''\<rparr>"
    by simp
  have h2: "get_role_by_key ''pm'' = Some (PROJECT_ROLES ! 0)"
    by (simp add: get_role_by_key_def PROJECT_ROLES_def)
  have h3: "map_of (ASSIGNMENTS initial_store) ''pm'' = None"
    by (simp add: initial_store_def)
  have h4: "get_user_role initial_store (tg_id \<lparr>tg_id = 1, full_name = ''Ann''\<rparr>) = None"
    by (simp add: initial_store_def get_user_role_def)
  have h5: "get_user_role initial_store (tg_id \<lparr>tg_id = 2, full_name = ''Bob''\<rparr>) = None"
    by (simp add: initial_store_def get_user_role_def)
  have h6: "[Select \<lparr>tg_id = 1, full_name = ''Ann''\<rparr> ''pm'', Select \<lparr>tg_id = 2, full_name = ''Bob''\<rparr> ''pm'',
    Confirm \<lparr>tg_id = 2, full_name = ''Bob''\<rparr> ''pm'', Confirm \<lparr>tg_id = 1, full_name = ''Ann''\<rparr> ''pm'']
     \<in> shuffles [Select \<lparr>tg_id = 1, full_name = ''Ann''\<rparr> ''pm'', Confirm \<lparr>tg_id = 1, full_name = ''Ann''\<rparr> ''pm'']
          [Select \<lparr>tg_id = 2, full_name = ''Bob''\<rparr> ''pm'', Confirm \<lparr>tg_id = 2, full_name = ''Bob''\<rparr> ''pm'']"
    by (simp add: shuffles_two_two)
  from race_safety [OF h1 h2 h3 h4 h5 h6, of "[]"] h1 h2 h3 h4 h5 h6 show ?thesis
    by (simp add: initial_store_def select_def confirm_def get_user_role_def)
qed

subsection \<open>Reset\<close>

text \<open>
  Claim C7. For a caller outside the admin identities and any store, \<open>reset\<close> answers
  \<open>Unauthorized\<close> and returns the store it was given, both dictionaries untouched; for a
  caller among the admin identities it empties both dictionaries.
\<close>

theorem reset_authorization:
  "(\<not> is_admin ADMIN_IDS caller \<longrightarrow> reset ADMIN_IDS caller s = (Inl Unauthorized, s)) \<and>
   (is_admin ADMIN_IDS caller \<longrightarrow>
      fst (reset ADMIN_IDS caller s) = Inr Reset_done \<and>
      ASSIGNMENTS (snd (reset ADMIN_IDS caller s)) = [] \<and>
      PENDING_CONFIRM (snd (reset ADMIN_IDS caller s)) = [])"
  by (simp add: reset_def)

theorem reset_authorization_witness:
  "\<not> is_admin [42] 7 \<and>
   reset [42] 7 \<lparr>ASSIGNMENTS = [(''pm'', \<lparr>user_id = 1, user_name = ''Ann''\<rparr>)],
                 PENDING_CONFIRM = [(2, ''ml'')]\<rparr> =
     (Inl Unauthorized,
      \<lparr>ASSIGNMENTS = [(''pm'', \<lparr>user_id = 1, user_name = ''Ann''\<rparr>)],
       PENDING_CONFIRM = [(2, ''ml'')]\<rparr>) \<and>
   is_admin [42] 42 \<and>
   ASSIGNMENTS (snd (reset [42] 42
      \<lparr>ASSIGNMENTS = [(''pm'', \<lparr>user_id = 1, user_name = ''Ann''\<rparr>)],
       PENDING_CONFIRM = [(2, ''ml'')]\<rparr>)) = [] \<and>
   PENDING_CONFIRM (snd (reset [42] 42
      \<lparr>ASSIGNMENTS = [(''pm'', \<lparr>user_id = 1, user_name = ''Ann''\<rparr>)],
       PENDING_CONFIRM = [(2, ''ml'')]\<rparr>)) = []"
  using
    reset_authorization [of "[42]" 7
      "\<lparr>ASSIGNMENTS = [(''pm'', \<lparr>user_id = 1, user_name = ''Ann''\<rparr>)],
        PENDING_CONFIRM = [(2, ''ml'')]\<rparr>"]
    reset_authorization [of "[42]" 42
      "\<lparr>ASSIGNMENTS = [(''pm'', \<lparr>user_id = 1, user_name = ''Ann''\<rparr>)],
        PENDING_CONFIRM = [(2, ''ml'')]\<rparr>"]
  by (simp add: is_admin_def)

text \<open>
  Claim C9. After a reset by an admin the status text is the status text of the initial
  store, whatever the store was before, and that text is the "available" line of every
  role of the catalog, in catalog order.
\<close>

theorem reset_rendering:
  "is_admin ADMIN_IDS caller \<Longrightarrow>
     get_assignments_text (snd (reset ADMIN_IDS caller s)) = get_assignments_text initial_store \<and>
     get_assignments_text (snd (reset ADMIN_IDS caller s)) =
       join (newline @ newline) (map available_line PROJECT_ROLES)"
  by (simp add: reset_def get_assignments_text_def initial_store_def)

theorem reset_rendering_witness:
  "is_admin [42] 42 \<and>
   get_assignments_text (snd (reset [42] 42
      \<lparr>ASSIGNMENTS = [(''pm'', \<lparr>user_id = 1, user_name = ''Ann''\<rparr>)],
       PENDING_CONFIRM = [(2, ''ml'')]\<rparr>)) = get_assignments_text initial_store"
proof -
  have adm: "is_admin [42] 42"
    by (simp add: is_admin_def)
  from reset_rendering [OF adm] adm show ?thesis
    by simp
qed

subsection \<open>Cancel\<close>

text \<open>
  Claim C8. For every claimant and store, cancelling twice leaves the store that
  cancelling once leaves; cancel never answers with an error; and when the claimant has no
  pending entry, cancel returns the store it was given.
\<close>

theorem cancel_idempotent:
  "snd (cancel c (snd (cancel c s))) = snd (cancel c s) \<and>
   fst (cancel c s) = Inr Cancelled \<and>
   (map_of (PENDING_CONFIRM s) (tg_id c) = None \<longrightarrow> cancel c s = (Inr Cancelled, s))"
  by (simp add: cancel_def AList.delete_idem delete_absent)

theorem cancel_idempotent_witness:
  "map_of (PENDING_CONFIRM \<lparr>ASSIGNMENTS = [], PENDING_CONFIRM = [(2, ''ml'')]\<rparr>)
      (tg_id \<lparr>tg_id = 1, full_name = ''Ann''\<rparr>) = None \<and>
   cancel \<lparr>tg_id = 1, full_name = ''Ann''\<rparr> \<lparr>ASSIGNMENTS = [], PENDING_CONFIRM = [(2, ''ml'')]\<rparr> =
     (Inr Cancelled, \<lparr>ASSIGNMENTS = [], PENDING_CONFIRM = [(2, ''ml'')]\<rparr>)"
  using cancel_idempotent [of "\<lparr>tg_id = 1, full_name = ''Ann''\<rparr>"
      "\<lparr>ASSIGNMENTS = [], PENDING_CONFIRM = [(2, ''ml'')]\<rparr>"]
  by simp

text \<open>
  Claim C10. Cancel by claimant \<open>c\<close> leaves the assignments as they were, and the pending
  entry of every other claimant as it was: the lookups agree, and so do the entries of the
  other claimants as a list.
\<close>

theorem cancel_frame:
  "ASSIGNMENTS (snd (cancel c s)) = ASSIGNMENTS s \<and>
   (\<forall>d. d \<noteq> tg_id c \<longrightarrow>
      map_of (PENDING_CONFIRM (snd (cancel c s))) d = map_of (PENDING_CONFIRM s) d) \<and>
   filter (\<lambda>kv. fst kv \<noteq> tg_id c) (PENDING_CONFIRM (snd (cancel c s))) =
     filter (\<lambda>kv. fst kv \<noteq> tg_id c) (PENDING_CONFIRM s)"
  by (simp add: cancel_def filter_others_delete)

theorem cancel_frame_witness:
  "(2::int) \<noteq> tg_id \<lparr>tg_id = 1, full_name = ''Ann''\<rparr> \<and>
   map_of (PENDING_CONFIRM (snd (cancel \<lparr>tg_id = 1, full_name = ''Ann''\<rparr>
        \<lparr>ASSIGNMENTS = [], PENDING_CONFIRM = [(1, ''pm''), (2, ''ml'')]\<rparr>))) 2 = Some ''ml''"
  using cancel_frame [of "\<lparr>tg_id = 1, full_name = ''Ann''\<rparr>"
      "\<lparr>ASSIGNMENTS = [], PENDING_CONFIRM = [(1, ''pm''), (2, ''ml'')]\<rparr>"]
  by simp

end
